theory Spec2Isabelle
  imports Main "HOL-Library.Word"
begin

unbundle bit_operations_syntax

section \<open>BabyMicrowave.ino: data model\<close>

text \<open>
  The sketch runs on an ATtiny13a (avr-gcc): \<open>byte\<close> is 8 bits, \<open>int\<close> and
  \<open>unsigned int\<close> are 16 bits, \<open>unsigned long\<close> (the type of \<open>millis()\<close>) is 32 bits.
  Unsigned arithmetic wraps; a conversion to a narrower or to a signed type keeps the low
  bits (\<open>ucast\<close>), and a signed comparison reads the bits as two's complement (\<open><s\<close>).
\<close>

type_synonym byte = "8 word"
type_synonym int16 = "16 word"
type_synonym ulong = "32 word"

datatype pin = BUTTON_PIN | LIGHT_PIN | SPEAKER_PIN | TIMER_PIN
datatype pin_mode = OUTPUT | INPUT_PULLUP
datatype level = LOW | HIGH

text \<open>
  The calls into the Arduino core that write to the hardware, in the order the sketch
  issues them. \<open>Tone p f d\<close> records \<open>tone(p, f, d)\<close> with the \<open>int\<close> values of the
  argument expressions.
\<close>

datatype command =
    PinMode pin pin_mode
  | DigitalWrite pin level
  | Tone pin int16 int16
  | NoTone pin

text \<open>The two \<open>#ifdef\<close> switches of the sketch; both are defined in the source as shipped.\<close>

record build =
  timer_pin_defined :: bool
  speaker_pin_defined :: bool

definition as_shipped :: build where
  "as_shipped = \<lparr>timer_pin_defined = True, speaker_pin_defined = True\<rparr>"

text \<open>The sketch with the \<open>#define TIMER_PIN\<close> line commented out.\<close>

definition no_timer_pin :: build where
  "no_timer_pin = \<lparr>timer_pin_defined = False, speaker_pin_defined = True\<rparr>"

abbreviation TONE_FREQ_COOKING :: int16 where "TONE_FREQ_COOKING \<equiv> 80"
abbreviation TONE_FREQ_BING :: int16 where "TONE_FREQ_BING \<equiv> 2500"
abbreviation BING_DURATION_MS :: int16 where "BING_DURATION_MS \<equiv> 350"
abbreviation ON_DURATION_MIN_MS :: int16 where "ON_DURATION_MIN_MS \<equiv> 2000"
abbreviation ON_DURATION_RANGE_SECS :: int16 where "ON_DURATION_RANGE_SECS \<equiv> 18"
abbreviation DEBOUNCE_TIME :: ulong where "DEBOUNCE_TIME \<equiv> 100"

text \<open>The three file-scope variables.\<close>

record vars =
  stateChangeTime :: ulong
  state :: byte
  onDuration :: int16

text \<open>Their static initialisers, before \<open>setup()\<close> runs.\<close>

definition power_on :: vars where
  "power_on = \<lparr>stateChangeTime = 0, state = 0, onDuration = ON_DURATION_MIN_MS\<rparr>"

subsection \<open>The flag macros\<close>

text \<open>
  In C the operands are promoted to \<open>int\<close> and the result of a \<open>SET_\<close> macro is stored
  back into the byte; on the low 8 bits that is the 8-bit operation written here.
\<close>

definition IS_CLOSED :: "byte \<Rightarrow> bool" where "IS_CLOSED st = (st AND 1 = 1)"
definition SET_CLOSED :: "byte \<Rightarrow> byte" where "SET_CLOSED st = st OR 1"
definition IS_OPEN :: "byte \<Rightarrow> bool" where "IS_OPEN st = (NOT st AND 1 = 1)"
definition SET_OPEN :: "byte \<Rightarrow> byte" where "SET_OPEN st = st AND NOT 1"

definition IS_ON :: "byte \<Rightarrow> bool" where "IS_ON st = (st AND 2 = 2)"
definition SET_ON :: "byte \<Rightarrow> byte" where "SET_ON st = st OR 2"
definition IS_OFF :: "byte \<Rightarrow> bool" where "IS_OFF st = (NOT st AND 2 = 2)"
definition SET_OFF :: "byte \<Rightarrow> byte" where "SET_OFF st = st AND NOT 2"

definition WAS_CLOSED :: "byte \<Rightarrow> bool" where "WAS_CLOSED st = (st AND 4 = 4)"
definition SET_WAS_CLOSED :: "byte \<Rightarrow> byte" where "SET_WAS_CLOSED st = st OR 4"
definition WAS_OPEN :: "byte \<Rightarrow> bool" where "WAS_OPEN st = (NOT st AND 4 = 4)"
definition SET_WAS_OPEN :: "byte \<Rightarrow> byte" where "SET_WAS_OPEN st = st AND NOT 4"

definition IS_BINGING :: "byte \<Rightarrow> bool" where "IS_BINGING st = (st AND 8 = 8)"
definition SET_BINGING :: "byte \<Rightarrow> byte" where "SET_BINGING st = st OR 8"
definition IS_FINISHED_BINGING :: "byte \<Rightarrow> bool" where
  "IS_FINISHED_BINGING st = (NOT st AND 8 = 8)"
definition SET_FINISHED_BINGING :: "byte \<Rightarrow> byte" where
  "SET_FINISHED_BINGING st = st AND NOT 8"

definition REMEMBER_IF_CLOSED :: "byte \<Rightarrow> byte" where
  "REMEMBER_IF_CLOSED st = (if IS_CLOSED st then SET_WAS_CLOSED st else SET_WAS_OPEN st)"

section \<open>setup()\<close>

text \<open>\<open>now\<close> is the value \<open>millis()\<close> returns in \<open>setup()\<close>.\<close>

definition setup_mw :: "build \<Rightarrow> ulong \<Rightarrow> vars \<Rightarrow> vars \<times> command list" where
  "setup_mw b now v =
     (v\<lparr>stateChangeTime := now,
        state := SET_FINISHED_BINGING (SET_OFF (SET_CLOSED (state v)))\<rparr>,
      [PinMode LIGHT_PIN OUTPUT, PinMode BUTTON_PIN INPUT_PULLUP]
      @ (if timer_pin_defined b then [PinMode TIMER_PIN INPUT_PULLUP] else [])
      @ (if speaker_pin_defined b then [PinMode SPEAKER_PIN OUTPUT] else [])
      @ [DigitalWrite LIGHT_PIN LOW])"

section \<open>loop()\<close>

text \<open>
  What one call of \<open>loop()\<close> reads from the outside: \<open>millis1\<close> is the value of the
  \<open>millis()\<close> call in the debounce test, \<open>millis2\<close> the value of the second call on the
  path taken (the one for \<open>timeSinceClose\<close>, or the one stored in \<open>stateChangeTime\<close>),
  \<open>button\<close> is \<open>digitalRead(BUTTON_PIN)\<close> and \<open>analog\<close> is
  \<open>analogRead(TIMER_ANALOG_PIN)\<close>, an \<open>int\<close> that the 10-bit converter keeps in 0..1023.
\<close>

record inputs =
  millis1 :: ulong
  millis2 :: ulong
  button :: level
  analog :: int16

text \<open>\<open>int timeSinceClose = millis() - stateChangeTime;\<close>: the 32-bit unsigned difference,
  narrowed to a 16-bit \<open>int\<close>.\<close>

definition timeSinceClose :: "inputs \<Rightarrow> vars \<Rightarrow> int16" where
  "timeSinceClose i v = ucast (millis2 i - stateChangeTime v)"

text \<open>\<open>unsigned int reading = 1024 - analogRead(TIMER_ANALOG_PIN);\<close>\<close>

definition reading :: "int16 \<Rightarrow> int16" where
  "reading a = 1024 - a"

text \<open>\<open>ON_DURATION_MIN_MS + reading * ON_DURATION_RANGE_SECS\<close>, computed in
  \<open>unsigned int\<close> and stored into the \<open>int\<close> variable \<open>onDuration\<close>.\<close>

definition duration :: "int16 \<Rightarrow> int16" where
  "duration r = ON_DURATION_MIN_MS + r * ON_DURATION_RANGE_SECS"

text \<open>
  One call of \<open>loop()\<close>: the new values of the variables and the commands issued.
  \<open>onDuration + BING_DURATION_MS\<close> is an \<open>int\<close> addition; it is written with the
  wrap-around of the 16-bit adder (the sum stays below 32768 for every duration the sketch
  computes from a reading in 0..1023).
\<close>

definition loop :: "build \<Rightarrow> inputs \<Rightarrow> vars \<Rightarrow> vars \<times> command list" where
  "loop b i v =
    (if millis1 i - stateChangeTime v < DEBOUNCE_TIME then (v, [])
     else
       let st1 = REMEMBER_IF_CLOSED (state v);
           st2 = (if button i = LOW then SET_CLOSED st1 else SET_OPEN st1)
       in
       if WAS_CLOSED st2 then
         if IS_OPEN st2 then
           (v\<lparr>state := SET_FINISHED_BINGING (SET_OFF (SET_OPEN st2))\<rparr>,
            DigitalWrite LIGHT_PIN HIGH
            # (if speaker_pin_defined b
               then [NoTone SPEAKER_PIN, DigitalWrite SPEAKER_PIN LOW] else []))
         else if IS_ON st2 \<and> onDuration v <s timeSinceClose i v then
           (v\<lparr>state := SET_BINGING (SET_OFF st2)\<rparr>,
            DigitalWrite LIGHT_PIN LOW
            # (if speaker_pin_defined b
               then [Tone SPEAKER_PIN TONE_FREQ_BING BING_DURATION_MS] else []))
         else if IS_OFF st2 \<and> IS_BINGING st2
                 \<and> onDuration v + BING_DURATION_MS <s timeSinceClose i v then
           (v\<lparr>state := SET_FINISHED_BINGING st2\<rparr>, [])
         else (v\<lparr>state := st2\<rparr>, [])
       else if WAS_OPEN st2 \<and> IS_CLOSED st2 then
         let d = (if timer_pin_defined b then duration (reading (analog i))
                  else onDuration v)
         in (\<lparr>stateChangeTime = millis2 i,
              state = SET_ON (SET_CLOSED st2),
              onDuration = d\<rparr>,
             DigitalWrite LIGHT_PIN HIGH
             # (if speaker_pin_defined b
                then [Tone SPEAKER_PIN TONE_FREQ_COOKING d] else []))
       else (v\<lparr>state := st2\<rparr>, []))"

text \<open>The sketch from reset: \<open>setup()\<close> at time \<open>t0\<close>, then one \<open>loop()\<close> per input.\<close>

definition boot :: "build \<Rightarrow> ulong \<Rightarrow> vars" where
  "boot b t0 = fst (setup_mw b t0 power_on)"

fun run :: "build \<Rightarrow> vars \<Rightarrow> inputs list \<Rightarrow> vars" where
  "run b v [] = v"
| "run b v (i # is) = run b (fst (loop b i v)) is"

section \<open>Which branch a call of loop() takes\<close>

text \<open>
  The four branches of \<open>loop()\<close> that change the machine: the door opened, the cook
  timer ran out, the bing ended, the door closed. \<open>transition_of\<close> walks the conditions
  of \<open>loop()\<close> in the same order and names the branch taken; \<open>None\<close> is the early
  return of the debounce test and the paths that fall through every \<open>if\<close>.
\<close>

datatype transition = DoorOpened | TimerExpired | BingFinished | DoorClosed

definition transition_of :: "inputs \<Rightarrow> vars \<Rightarrow> transition option" where
  "transition_of i v =
    (if millis1 i - stateChangeTime v < DEBOUNCE_TIME then None
     else
       let st1 = REMEMBER_IF_CLOSED (state v);
           st2 = (if button i = LOW then SET_CLOSED st1 else SET_OPEN st1)
       in
       if WAS_CLOSED st2 then
         if IS_OPEN st2 then Some DoorOpened
         else if IS_ON st2 \<and> onDuration v <s timeSinceClose i v then Some TimerExpired
         else if IS_OFF st2 \<and> IS_BINGING st2
                 \<and> onDuration v + BING_DURATION_MS <s timeSinceClose i v
           then Some BingFinished
         else None
       else if WAS_OPEN st2 \<and> IS_CLOSED st2 then Some DoorClosed
       else None)"

text \<open>The invariant behind the exclusion of running and binging: the bing flag is only
  set while the door flag says closed and the on flag is clear.\<close>

definition bing_inv :: "vars \<Rightarrow> bool" where
  "bing_inv v = (IS_BINGING (state v) \<longrightarrow> IS_CLOSED (state v) \<and> IS_OFF (state v))"

text \<open>The inputs of a call of \<open>loop()\<close> during which \<open>millis()\<close> does not advance:
  both calls return \<open>now\<close>.\<close>

definition at_time :: "ulong \<Rightarrow> level \<Rightarrow> int16 \<Rightarrow> inputs" where
  "at_time now l a = \<lparr>millis1 = now, millis2 = now, button = l, analog = a\<rparr>"

section \<open>The flags as bits\<close>

lemma and_push_bit_eq_iff_bit:
  fixes st :: byte
  assumes "n < 8"
  shows "(st AND push_bit n 1 = push_bit n 1) = bit st n"
proof
  assume "st AND push_bit n 1 = push_bit n 1"
  then have "bit (st AND push_bit n 1) n = bit (push_bit n 1 :: byte) n" by simp
  with assms show "bit st n" by (simp add: bit_simps)
next
  assume "bit st n"
  then show "st AND push_bit n 1 = push_bit n 1"
    by (intro bit_word_eqI) (auto simp add: bit_simps)
qed

lemma mask_bit_iff:
  fixes st :: byte
  shows "(st AND 1 = 1) = bit st 0" "(st AND 2 = 2) = bit st 1"
        "(st AND 4 = 4) = bit st 2" "(st AND 8 = 8) = bit st 3"
  using and_push_bit_eq_iff_bit[of 0 st] and_push_bit_eq_iff_bit[of 1 st]
    and_push_bit_eq_iff_bit[of 2 st] and_push_bit_eq_iff_bit[of 3 st]
  by simp_all

lemma IS_bit:
  "IS_CLOSED st = bit st 0" "IS_OPEN st = (\<not> bit st 0)"
  "IS_ON st = bit st 1" "IS_OFF st = (\<not> bit st 1)"
  "WAS_CLOSED st = bit st 2" "WAS_OPEN st = (\<not> bit st 2)"
  "IS_BINGING st = bit st 3" "IS_FINISHED_BINGING st = (\<not> bit st 3)"
  unfolding IS_CLOSED_def IS_OPEN_def IS_ON_def IS_OFF_def WAS_CLOSED_def WAS_OPEN_def
    IS_BINGING_def IS_FINISHED_BINGING_def mask_bit_iff
  by (simp_all add: bit_simps)

lemma bit_clear_flag:
  fixes st :: byte
  shows "bit (st AND NOT (push_bit k 1)) n = (bit st n \<and> n \<noteq> k)"
  by (auto simp add: bit_simps dest: bit_imp_le_length)

lemma bit_set_flag:
  fixes st :: byte
  shows "k < 8 \<Longrightarrow> bit (st OR push_bit k 1) n = (bit st n \<or> n = k)"
  by (auto simp add: bit_simps)

lemma SET_as_push_bit:
  "SET_CLOSED st = st OR push_bit 0 1" "SET_OPEN st = st AND NOT (push_bit 0 1)"
  "SET_ON st = st OR push_bit 1 1" "SET_OFF st = st AND NOT (push_bit 1 1)"
  "SET_WAS_CLOSED st = st OR push_bit 2 1" "SET_WAS_OPEN st = st AND NOT (push_bit 2 1)"
  "SET_BINGING st = st OR push_bit 3 1" "SET_FINISHED_BINGING st = st AND NOT (push_bit 3 1)"
  by (simp_all add: SET_CLOSED_def SET_OPEN_def SET_ON_def SET_OFF_def SET_WAS_CLOSED_def
    SET_WAS_OPEN_def SET_BINGING_def SET_FINISHED_BINGING_def)

lemma SET_bit:
  "bit (SET_CLOSED st) n = (bit st n \<or> n = 0)"
  "bit (SET_OPEN st) n = (bit st n \<and> n \<noteq> 0)"
  "bit (SET_ON st) n = (bit st n \<or> n = 1)"
  "bit (SET_OFF st) n = (bit st n \<and> n \<noteq> 1)"
  "bit (SET_WAS_CLOSED st) n = (bit st n \<or> n = 2)"
  "bit (SET_WAS_OPEN st) n = (bit st n \<and> n \<noteq> 2)"
  "bit (SET_BINGING st) n = (bit st n \<or> n = 3)"
  "bit (SET_FINISHED_BINGING st) n = (bit st n \<and> n \<noteq> 3)"
  by (simp_all only: SET_as_push_bit bit_clear_flag bit_set_flag[of 0] bit_set_flag[of 1]
      bit_set_flag[of 2] bit_set_flag[of 3])

lemma REMEMBER_bit:
  "bit (REMEMBER_IF_CLOSED st) n = (if n = 2 then bit st 0 else bit st n)"
  by (auto simp add: REMEMBER_IF_CLOSED_def IS_bit SET_bit)

lemmas flag_bits = IS_bit SET_bit REMEMBER_bit

section \<open>loop() branch by branch\<close>

lemma loop_debounced:
  "millis1 i - stateChangeTime v < DEBOUNCE_TIME \<Longrightarrow> loop b i v = (v, [])"
  by (simp add: loop_def)

lemma loop_door_opened:
  assumes "\<not> millis1 i - stateChangeTime v < DEBOUNCE_TIME" "IS_CLOSED (state v)"
    "button i = HIGH"
  shows "loop b i v =
    (v\<lparr>state := SET_FINISHED_BINGING
          (SET_OFF (SET_OPEN (SET_OPEN (REMEMBER_IF_CLOSED (state v)))))\<rparr>,
     DigitalWrite LIGHT_PIN HIGH
       # (if speaker_pin_defined b
          then [NoTone SPEAKER_PIN, DigitalWrite SPEAKER_PIN LOW] else []))"
  using assms by (simp add: loop_def Let_def flag_bits)

lemma loop_door_closed:
  assumes "\<not> millis1 i - stateChangeTime v < DEBOUNCE_TIME" "IS_OPEN (state v)"
    "button i = LOW"
  shows "loop b i v =
    (\<lparr>stateChangeTime = millis2 i,
      state = SET_ON (SET_CLOSED (SET_CLOSED (REMEMBER_IF_CLOSED (state v)))),
      onDuration = (if timer_pin_defined b then duration (reading (analog i))
                    else onDuration v)\<rparr>,
     DigitalWrite LIGHT_PIN HIGH
       # (if speaker_pin_defined b
          then [Tone SPEAKER_PIN TONE_FREQ_COOKING
                 (if timer_pin_defined b then duration (reading (analog i))
                  else onDuration v)]
          else []))"
  using assms by (simp add: loop_def Let_def flag_bits)

lemma loop_still_closed:
  assumes "\<not> millis1 i - stateChangeTime v < DEBOUNCE_TIME" "IS_CLOSED (state v)"
    "button i = LOW"
  shows "loop b i v =
    (if IS_ON (state v) \<and> onDuration v <s timeSinceClose i v then
       (v\<lparr>state := SET_BINGING (SET_OFF (SET_CLOSED (REMEMBER_IF_CLOSED (state v))))\<rparr>,
        DigitalWrite LIGHT_PIN LOW
        # (if speaker_pin_defined b
           then [Tone SPEAKER_PIN TONE_FREQ_BING BING_DURATION_MS] else []))
     else if IS_OFF (state v) \<and> IS_BINGING (state v)
             \<and> onDuration v + BING_DURATION_MS <s timeSinceClose i v then
       (v\<lparr>state := SET_FINISHED_BINGING (SET_CLOSED (REMEMBER_IF_CLOSED (state v)))\<rparr>, [])
     else (v\<lparr>state := SET_CLOSED (REMEMBER_IF_CLOSED (state v))\<rparr>, []))"
  using assms by (simp add: loop_def Let_def flag_bits)

lemma loop_still_open:
  assumes "\<not> millis1 i - stateChangeTime v < DEBOUNCE_TIME" "IS_OPEN (state v)"
    "button i = HIGH"
  shows "loop b i v = (v\<lparr>state := SET_OPEN (REMEMBER_IF_CLOSED (state v))\<rparr>, [])"
  using assms by (simp add: loop_def Let_def flag_bits)

lemmas boot_defs = boot_def setup_mw_def power_on_def

section \<open>Opening the door\<close>

text \<open>
  Claim C3. A call of \<open>loop()\<close> that gets past the debounce test, finds the door flag
  set from the call before and reads the switch open clears the on flag and the bing flag
  and drives the light pin high; with a speaker it stops the tone (\<open>noTone\<close>, then the
  speaker pin low). Nothing in the hypotheses speaks of the time elapsed or of the on and
  bing flags before the call.
\<close>

theorem door_opening_stops_tone_keeps_light:
  assumes "\<not> millis1 i - stateChangeTime v < DEBOUNCE_TIME"
      and "IS_CLOSED (state v)"
      and "button i = HIGH"
  shows "IS_OFF (state (fst (loop b i v)))
       \<and> IS_FINISHED_BINGING (state (fst (loop b i v)))
       \<and> \<not> IS_ON (state (fst (loop b i v)))
       \<and> \<not> IS_BINGING (state (fst (loop b i v)))
       \<and> IS_OPEN (state (fst (loop b i v)))
       \<and> snd (loop b i v) =
           DigitalWrite LIGHT_PIN HIGH
           # (if speaker_pin_defined b
              then [NoTone SPEAKER_PIN, DigitalWrite SPEAKER_PIN LOW] else [])"
  by (simp add: loop_door_opened[OF assms] flag_bits)

theorem door_opening_stops_tone_keeps_light_witness:
  "\<not> millis1 (at_time 100 HIGH 0) - stateChangeTime (boot as_shipped 0) < DEBOUNCE_TIME
   \<and> IS_CLOSED (state (boot as_shipped 0))
   \<and> button (at_time 100 HIGH 0) = HIGH
   \<and> \<not> IS_ON (state (fst (loop as_shipped (at_time 100 HIGH 0) (boot as_shipped 0))))
   \<and> \<not> IS_BINGING (state (fst (loop as_shipped (at_time 100 HIGH 0) (boot as_shipped 0))))
   \<and> snd (loop as_shipped (at_time 100 HIGH 0) (boot as_shipped 0))
      = [DigitalWrite LIGHT_PIN HIGH, NoTone SPEAKER_PIN, DigitalWrite SPEAKER_PIN LOW]"
proof -
  have h1: "\<not> millis1 (at_time 100 HIGH 0) - stateChangeTime (boot as_shipped 0)
              < DEBOUNCE_TIME"
    by (simp add: boot_defs at_time_def)
  have h2: "IS_CLOSED (state (boot as_shipped 0))"
    by (simp add: boot_defs flag_bits)
  have h3: "button (at_time 100 HIGH 0) = HIGH"
    by (simp add: at_time_def)
  show ?thesis
    using h1 h2 h3 door_opening_stops_tone_keeps_light[OF h1 h2 h3, of as_shipped]
    by (simp add: as_shipped_def)
qed

section \<open>The exclusion of running and binging\<close>

lemma bing_inv_loop: "bing_inv v \<Longrightarrow> bing_inv (fst (loop b i v))"
  by (cases "button i") (auto simp add: bing_inv_def loop_def Let_def flag_bits)

lemma bing_inv_boot: "bing_inv (boot b t0)"
  by (simp add: bing_inv_def boot_defs flag_bits)

lemma bing_inv_run: "bing_inv v \<Longrightarrow> bing_inv (run b v is)"
  by (induction "is" arbitrary: v) (simp_all add: bing_inv_loop)

text \<open>
  Claim C6. After \<open>setup()\<close> at any time and any number of calls of \<open>loop()\<close> with any
  inputs, the on flag and the bing flag are not both set.
\<close>

theorem never_running_and_binging:
  "\<not> (IS_ON (state (run b (boot b t0) is)) \<and> IS_BINGING (state (run b (boot b t0) is)))"
  using bing_inv_run[OF bing_inv_boot, of b b t0 "is"] by (auto simp add: bing_inv_def IS_bit)

section \<open>Reading 16-bit values\<close>

lemma sint_small:
  fixes w :: int16
  assumes "uint w < 32768"
  shows "sint w = uint w"
proof -
  have "- (2 ^ 15) \<le> (0::int)" by simp
  then have "- (2 ^ 15) \<le> uint w"
    by (rule order_trans) simp
  moreover have "uint w < 2 ^ 15" using assms by simp
  ultimately have "signed_take_bit 15 (uint w) = uint w"
    by (rule signed_take_bit_int_eq_self)
  then show ?thesis by (simp add: sint_uint)
qed

lemma uint_narrow:
  fixes x :: ulong
  assumes "uint x < 65536"
  shows "uint (ucast x :: int16) = uint x"
  using assms by (simp add: unsigned_ucast_eq take_bit_int_eq_self)

lemma reading_in_range:
  assumes "a \<le> 1023"
  shows "uint (reading a) = 1024 - uint a"
proof -
  have "uint a \<le> 1023" using assms by (simp add: word_le_def)
  moreover have "0 \<le> uint a" by simp
  ultimately have "(1024 - uint a) mod 65536 = 1024 - uint a"
    by (intro mod_pos_pos_trivial) linarith+
  then show ?thesis by (simp add: reading_def uint_word_ariths)
qed

lemma duration_in_range:
  assumes "uint r \<le> 1024"
  shows "uint (duration r) = 2000 + uint r * 18"
proof -
  have "0 \<le> uint r" by simp
  have "uint (duration r) = (2000 + uint r * 18) mod 65536"
    by (simp add: duration_def uint_word_ariths mod_simps)
  also have "\<dots> = 2000 + uint r * 18"
    using assms \<open>0 \<le> uint r\<close> by (intro mod_pos_pos_trivial) linarith+
  finally show ?thesis .
qed

lemma duration_sint:
  assumes "uint r \<le> 1024"
  shows "sint (duration r) = 2000 + uint r * 18"
proof -
  have "uint (duration r) < 32768" using assms by (simp add: duration_in_range)
  then show ?thesis using assms by (simp add: sint_small duration_in_range)
qed

lemma duration_of_analog:
  assumes "a \<le> 1023"
  shows "sint (duration (reading a)) = 2000 + (1024 - uint a) * 18"
proof -
  have "0 \<le> uint a" by simp
  then have "uint (reading a) \<le> 1024" using assms by (simp add: reading_in_range)
  then have "sint (duration (reading a)) = 2000 + uint (reading a) * 18"
    by (rule duration_sint)
  then show ?thesis by (simp add: reading_in_range[OF assms])
qed

text \<open>The definitions that evaluate a call of \<open>loop()\<close> on concrete inputs.\<close>

lemmas eval_defs = loop_def Let_def boot_defs at_time_def as_shipped_def no_timer_pin_def
  timeSinceClose_def
  reading_def duration_def transition_of_def
  IS_CLOSED_def IS_OPEN_def IS_ON_def IS_OFF_def WAS_CLOSED_def WAS_OPEN_def
  IS_BINGING_def IS_FINISHED_BINGING_def SET_CLOSED_def SET_OPEN_def SET_ON_def SET_OFF_def
  SET_WAS_CLOSED_def SET_WAS_OPEN_def SET_BINGING_def SET_FINISHED_BINGING_def
  REMEMBER_IF_CLOSED_def

section \<open>The cook duration computed when the door closes\<close>

text \<open>
  Claim C10. With \<open>TIMER_PIN\<close> defined, the call of \<open>loop()\<close> that recognizes the door
  closing stores \<open>onDuration = 2000 + (1024 - raw) * 18\<close> for every analog value
  \<open>raw\<close> in 0..1023, without wrap-around. So the duration lies in 2018..20432, is never
  the 2000 ms minimum, is 20432 for \<open>raw = 0\<close>, and is strictly smaller for a larger
  \<open>raw\<close>.
\<close>

theorem close_duration_formula:
  assumes "\<not> millis1 i - stateChangeTime v < DEBOUNCE_TIME"
      and "IS_OPEN (state v)"
      and "button i = LOW"
      and "timer_pin_defined b"
      and "analog i \<le> 1023"
  shows "sint (onDuration (fst (loop b i v))) = 2000 + (1024 - uint (analog i)) * 18
       \<and> 2018 \<le> sint (onDuration (fst (loop b i v)))
       \<and> sint (onDuration (fst (loop b i v))) \<le> 20432
       \<and> onDuration (fst (loop b i v)) \<noteq> ON_DURATION_MIN_MS
       \<and> (analog i = 0 \<longrightarrow> sint (onDuration (fst (loop b i v))) = 20432)
       \<and> (\<forall>i'. \<not> millis1 i' - stateChangeTime v < DEBOUNCE_TIME \<and> button i' = LOW
                \<and> analog i' \<le> 1023 \<and> analog i < analog i'
             \<longrightarrow> sint (onDuration (fst (loop b i' v))) < sint (onDuration (fst (loop b i v))))"
proof -
  have le: "uint (analog i) \<le> 1023" using assms(5) by (simp add: word_le_def)
  have ge: "0 \<le> uint (analog i)" by simp
  have d: "sint (onDuration (fst (loop b i v))) = 2000 + (1024 - uint (analog i)) * 18"
    using assms by (simp add: loop_door_closed duration_of_analog)
  have ne: "onDuration (fst (loop b i v)) \<noteq> ON_DURATION_MIN_MS"
  proof
    assume "onDuration (fst (loop b i v)) = ON_DURATION_MIN_MS"
    then have "sint (onDuration (fst (loop b i v))) = sint ON_DURATION_MIN_MS"
      by (rule arg_cong)
    then have "sint (onDuration (fst (loop b i v))) = 2000" by simp
    with d have "uint (analog i) = 1024" by simp
    with le show False by simp
  qed
  have mono: "sint (onDuration (fst (loop b i' v))) < sint (onDuration (fst (loop b i v)))"
    if h: "\<not> millis1 i' - stateChangeTime v < DEBOUNCE_TIME" "button i' = LOW"
       "analog i' \<le> 1023" "analog i < analog i'" for i'
  proof -
    have "sint (onDuration (fst (loop b i' v))) = 2000 + (1024 - uint (analog i')) * 18"
      using h assms by (simp add: loop_door_closed duration_of_analog)
    moreover have "uint (analog i) < uint (analog i')"
      using h(4) by (simp add: word_less_def)
    ultimately show ?thesis using d by simp
  qed
  have z: "sint (onDuration (fst (loop b i v))) = 20432" if "analog i = 0"
    using d that by simp
  have lo: "2018 \<le> sint (onDuration (fst (loop b i v)))" using d le by simp
  have hi: "sint (onDuration (fst (loop b i v))) \<le> 20432" using d ge by simp
  from d lo hi ne z mono show ?thesis by blast
qed

theorem close_duration_formula_witness:
  "\<not> millis1 (at_time 200 LOW 0)
       - stateChangeTime (run as_shipped (boot as_shipped 0) [at_time 100 HIGH 0])
       < DEBOUNCE_TIME
   \<and> IS_OPEN (state (run as_shipped (boot as_shipped 0) [at_time 100 HIGH 0]))
   \<and> button (at_time 200 LOW 0) = LOW
   \<and> timer_pin_defined as_shipped
   \<and> analog (at_time 200 LOW 0) \<le> 1023
   \<and> analog (at_time 200 LOW 0) = 0
   \<and> \<not> millis1 (at_time 200 LOW 1023)
         - stateChangeTime (run as_shipped (boot as_shipped 0) [at_time 100 HIGH 0])
         < DEBOUNCE_TIME
   \<and> button (at_time 200 LOW 1023) = LOW
   \<and> analog (at_time 200 LOW 1023) \<le> 1023
   \<and> analog (at_time 200 LOW 0) < analog (at_time 200 LOW 1023)
   \<and> sint (onDuration (fst (loop as_shipped (at_time 200 LOW 0)
         (run as_shipped (boot as_shipped 0) [at_time 100 HIGH 0])))) = 20432
   \<and> sint (onDuration (fst (loop as_shipped (at_time 200 LOW 1023)
         (run as_shipped (boot as_shipped 0) [at_time 100 HIGH 0]))))
       < sint (onDuration (fst (loop as_shipped (at_time 200 LOW 0)
         (run as_shipped (boot as_shipped 0) [at_time 100 HIGH 0]))))"
proof -
  let ?v = "run as_shipped (boot as_shipped 0) [at_time 100 HIGH 0]"
  have h1: "\<not> millis1 (at_time 200 LOW 0) - stateChangeTime ?v < DEBOUNCE_TIME"
    by (simp add: eval_defs)
  have h2: "IS_OPEN (state ?v)" by (simp add: eval_defs)
  have h3: "button (at_time 200 LOW 0) = LOW" by (simp add: at_time_def)
  have h4: "timer_pin_defined as_shipped" by (simp add: as_shipped_def)
  have h5: "analog (at_time 200 LOW 0) \<le> 1023" by (simp add: at_time_def)
  have h6: "analog (at_time 200 LOW 0) = 0" by (simp add: at_time_def)
  have h7: "\<not> millis1 (at_time 200 LOW 1023) - stateChangeTime ?v < DEBOUNCE_TIME"
    by (simp add: eval_defs)
  have h8: "button (at_time 200 LOW 1023) = LOW" by (simp add: at_time_def)
  have h9: "analog (at_time 200 LOW 1023) \<le> 1023" by (simp add: at_time_def)
  have h10: "analog (at_time 200 LOW 0) < analog (at_time 200 LOW 1023)"
    by (simp add: at_time_def)
  from close_duration_formula[OF h1 h2 h3 h4 h5] h6 h7 h8 h9 h10
  have "sint (onDuration (fst (loop as_shipped (at_time 200 LOW 0) ?v))) = 20432"
    and "sint (onDuration (fst (loop as_shipped (at_time 200 LOW 1023) ?v)))
         < sint (onDuration (fst (loop as_shipped (at_time 200 LOW 0) ?v)))"
    by blast+
  with h1 h2 h3 h4 h5 h6 h7 h8 h9 h10 show ?thesis by blast
qed

section \<open>Where stateChangeTime is written\<close>

text \<open>
  Claim C9. \<open>setup()\<close> stores its \<open>millis()\<close> value in \<open>stateChangeTime\<close>, and a call
  of \<open>loop()\<close> writes the variable exactly when it takes the door-closing branch (past the
  debounce test, door flag clear, switch read closed), storing its second \<open>millis()\<close>
  value. Every other call, the door-opening, timer-expiry and bing-finished branches
  included, leaves \<open>stateChangeTime\<close> as it was, so the debounce test measures the time
  since the last recognized close or since \<open>setup()\<close>.
\<close>

theorem stateChangeTime_written_only_on_close:
  "stateChangeTime (fst (setup_mw b t0 v0)) = t0
   \<and> stateChangeTime (fst (loop b i v)) =
       (if transition_of i v = Some DoorClosed then millis2 i else stateChangeTime v)
   \<and> (transition_of i v = Some DoorClosed) =
       (\<not> millis1 i - stateChangeTime v < DEBOUNCE_TIME \<and> IS_OPEN (state v)
        \<and> button i = LOW)"
  by (cases "button i") (simp_all add: setup_mw_def loop_def transition_of_def Let_def flag_bits)

theorem stateChangeTime_written_only_on_close_witness:
  "transition_of (at_time 200 LOW 0) (run as_shipped (boot as_shipped 0) [at_time 100 HIGH 0])
     = Some DoorClosed
   \<and> stateChangeTime (fst (loop as_shipped (at_time 200 LOW 0)
        (run as_shipped (boot as_shipped 0) [at_time 100 HIGH 0]))) = 200
   \<and> transition_of (at_time 100 HIGH 0) (boot as_shipped 0) = Some DoorOpened
   \<and> stateChangeTime (fst (loop as_shipped (at_time 100 HIGH 0) (boot as_shipped 0))) = 0"
  using stateChangeTime_written_only_on_close[of as_shipped 0 power_on "at_time 200 LOW 0"
            "run as_shipped (boot as_shipped 0) [at_time 100 HIGH 0]"]
        stateChangeTime_written_only_on_close[of as_shipped 0 power_on "at_time 100 HIGH 0"
            "boot as_shipped 0"]
  by (simp add: eval_defs)

section \<open>The debounce test\<close>

text \<open>
  Claim C2, as stated, fails: a call of \<open>loop()\<close> that recognizes the door opening does
  not write \<open>stateChangeTime\<close>, so a call 10 ms later is not held back. After
  \<open>setup()\<close> at 0, the call at 100 ms reads the switch open (door-opening branch) and
  the call at 110 ms reads it closed and takes the door-closing branch.
\<close>

theorem no_debounce_after_door_opening:
  "transition_of (at_time 100 HIGH 0) (boot as_shipped 0) = Some DoorOpened
   \<and> (110 :: ulong) - 100 < DEBOUNCE_TIME
   \<and> fst (loop as_shipped (at_time 110 LOW 0)
            (fst (loop as_shipped (at_time 100 HIGH 0) (boot as_shipped 0))))
       \<noteq> fst (loop as_shipped (at_time 100 HIGH 0) (boot as_shipped 0))"
  by (simp add: eval_defs)

text \<open>
  Claim C2, amended. A call of \<open>loop()\<close> whose first \<open>millis()\<close> value is less than
  \<open>DEBOUNCE_TIME\<close> after \<open>stateChangeTime\<close> (in 32-bit unsigned subtraction) returns
  with all three variables unchanged and no command issued, whatever the switch and the
  potentiometer read. In particular, when a call recognized the door closing and stored
  the time \<open>millis2 i\<close>, every call less than \<open>DEBOUNCE_TIME\<close> after that time changes
  nothing.
\<close>

theorem debounce_gate_freezes:
  "(millis1 i - stateChangeTime v < DEBOUNCE_TIME \<longrightarrow> loop b i v = (v, []))
   \<and> (transition_of i v = Some DoorClosed \<and> millis1 i' - millis2 i < DEBOUNCE_TIME
        \<longrightarrow> loop b i' (fst (loop b i v)) = (fst (loop b i v), []))"
  by (cases "button i") (simp_all add: loop_def transition_of_def Let_def flag_bits)

theorem debounce_gate_freezes_witness:
  "millis1 (at_time 50 HIGH 0) - stateChangeTime (boot as_shipped 0) < DEBOUNCE_TIME
   \<and> loop as_shipped (at_time 50 HIGH 0) (boot as_shipped 0) = (boot as_shipped 0, [])
   \<and> transition_of (at_time 200 LOW 0) (run as_shipped (boot as_shipped 0) [at_time 100 HIGH 0])
       = Some DoorClosed
   \<and> millis1 (at_time 299 HIGH 0) - millis2 (at_time 200 LOW 0) < DEBOUNCE_TIME
   \<and> loop as_shipped (at_time 299 HIGH 0)
        (fst (loop as_shipped (at_time 200 LOW 0)
               (run as_shipped (boot as_shipped 0) [at_time 100 HIGH 0])))
      = (fst (loop as_shipped (at_time 200 LOW 0)
               (run as_shipped (boot as_shipped 0) [at_time 100 HIGH 0])), [])"
proof -
  have h1: "millis1 (at_time 50 HIGH 0) - stateChangeTime (boot as_shipped 0) < DEBOUNCE_TIME"
    by (simp add: eval_defs)
  have h2: "transition_of (at_time 200 LOW 0)
      (run as_shipped (boot as_shipped 0) [at_time 100 HIGH 0]) = Some DoorClosed"
    by (simp add: eval_defs)
  have h3: "millis1 (at_time 299 HIGH 0) - millis2 (at_time 200 LOW 0) < DEBOUNCE_TIME"
    by (simp add: at_time_def)
  show ?thesis
    using h1 h2 h3
      debounce_gate_freezes[of "at_time 50 HIGH 0" "boot as_shipped 0" as_shipped]
      debounce_gate_freezes[of "at_time 200 LOW 0"
        "run as_shipped (boot as_shipped 0) [at_time 100 HIGH 0]" as_shipped
        "at_time 299 HIGH 0"]
    by blast
qed

section \<open>The cook timer running out\<close>

lemma timeSinceClose_small:
  assumes "uint (millis2 i - stateChangeTime v) < 32768"
  shows "sint (timeSinceClose i v) = uint (millis2 i - stateChangeTime v)"
proof -
  have "uint (ucast (millis2 i - stateChangeTime v) :: int16)
        = uint (millis2 i - stateChangeTime v)"
    using assms by (intro uint_narrow) simp
  then show ?thesis using assms by (simp add: timeSinceClose_def sint_small)
qed

lemma no_bing_after_expiry:
  assumes "IS_OFF (state v)"
  shows "Tone SPEAKER_PIN TONE_FREQ_BING BING_DURATION_MS \<notin> set (snd (loop b i v))"
  using assms by (cases "button i") (auto simp add: loop_def Let_def flag_bits)

text \<open>
  Claim C4, amended. A call of \<open>loop()\<close> that gets past the debounce test, finds the
  door flag set from the call before, reads the switch closed, finds the on flag set, and
  whose elapsed time since the recognized close is above \<open>onDuration\<close> and below
  32768 ms (so that it fits the \<open>int\<close> variable \<open>timeSinceClose\<close>) clears the on
  flag, sets the bing flag, drives the light pin low and, with a speaker, issues the
  2500 Hz tone of 350 ms. The tone is issued once: no call of \<open>loop()\<close> on the
  resulting variables issues it again.
\<close>

theorem timer_expiry_starts_bing:
  assumes "\<not> millis1 i - stateChangeTime v < DEBOUNCE_TIME"
      and "IS_CLOSED (state v)"
      and "button i = LOW"
      and "IS_ON (state v)"
      and "uint (millis2 i - stateChangeTime v) < 32768"
      and "sint (onDuration v) < uint (millis2 i - stateChangeTime v)"
  shows "IS_OFF (state (fst (loop b i v)))
       \<and> \<not> IS_ON (state (fst (loop b i v)))
       \<and> IS_BINGING (state (fst (loop b i v)))
       \<and> snd (loop b i v) =
           DigitalWrite LIGHT_PIN LOW
           # (if speaker_pin_defined b
              then [Tone SPEAKER_PIN TONE_FREQ_BING BING_DURATION_MS] else [])
       \<and> (\<forall>i'. Tone SPEAKER_PIN TONE_FREQ_BING BING_DURATION_MS
                 \<notin> set (snd (loop b i' (fst (loop b i v)))))"
proof -
  have "onDuration v <s timeSinceClose i v"
    using assms(5,6) by (simp add: word_sless_alt timeSinceClose_small)
  with assms have l: "loop b i v =
       (v\<lparr>state := SET_BINGING (SET_OFF (SET_CLOSED (REMEMBER_IF_CLOSED (state v))))\<rparr>,
        DigitalWrite LIGHT_PIN LOW
        # (if speaker_pin_defined b
           then [Tone SPEAKER_PIN TONE_FREQ_BING BING_DURATION_MS] else []))"
    by (simp add: loop_still_closed)
  have off: "IS_OFF (state (fst (loop b i v)))" by (simp add: l flag_bits)
  from off no_bing_after_expiry[OF off] show ?thesis by (simp add: l flag_bits)
qed

theorem timer_expiry_starts_bing_witness:
  "\<not> millis1 (at_time 2219 LOW 1023)
       - stateChangeTime (run as_shipped (boot as_shipped 0)
           [at_time 100 HIGH 0, at_time 200 LOW 1023]) < DEBOUNCE_TIME
   \<and> IS_CLOSED (state (run as_shipped (boot as_shipped 0)
           [at_time 100 HIGH 0, at_time 200 LOW 1023]))
   \<and> button (at_time 2219 LOW 1023) = LOW
   \<and> IS_ON (state (run as_shipped (boot as_shipped 0)
           [at_time 100 HIGH 0, at_time 200 LOW 1023]))
   \<and> uint (millis2 (at_time 2219 LOW 1023)
       - stateChangeTime (run as_shipped (boot as_shipped 0)
           [at_time 100 HIGH 0, at_time 200 LOW 1023])) < 32768
   \<and> sint (onDuration (run as_shipped (boot as_shipped 0)
           [at_time 100 HIGH 0, at_time 200 LOW 1023]))
       < uint (millis2 (at_time 2219 LOW 1023)
           - stateChangeTime (run as_shipped (boot as_shipped 0)
               [at_time 100 HIGH 0, at_time 200 LOW 1023]))
   \<and> IS_BINGING (state (fst (loop as_shipped (at_time 2219 LOW 1023)
         (run as_shipped (boot as_shipped 0) [at_time 100 HIGH 0, at_time 200 LOW 1023]))))
   \<and> snd (loop as_shipped (at_time 2219 LOW 1023)
         (run as_shipped (boot as_shipped 0) [at_time 100 HIGH 0, at_time 200 LOW 1023]))
       = [DigitalWrite LIGHT_PIN LOW, Tone SPEAKER_PIN TONE_FREQ_BING BING_DURATION_MS]"
proof -
  let ?v = "run as_shipped (boot as_shipped 0) [at_time 100 HIGH 0, at_time 200 LOW 1023]"
  let ?i = "at_time 2219 LOW 1023"
  have h1: "\<not> millis1 ?i - stateChangeTime ?v < DEBOUNCE_TIME" by (simp add: eval_defs)
  have h2: "IS_CLOSED (state ?v)" by (simp add: eval_defs)
  have h3: "button ?i = LOW" by (simp add: at_time_def)
  have h4: "IS_ON (state ?v)" by (simp add: eval_defs)
  have h5: "uint (millis2 ?i - stateChangeTime ?v) < 32768" by (simp add: eval_defs)
  have h6: "sint (onDuration ?v) < uint (millis2 ?i - stateChangeTime ?v)"
    by (simp add: eval_defs)
  show ?thesis
    using h1 h2 h3 h4 h5 h6 timer_expiry_starts_bing[OF h1 h2 h3 h4 h5 h6, of as_shipped]
    by (simp add: as_shipped_def)
qed

text \<open>
  Claim C4, as stated, fails: \<open>timeSinceClose\<close> is the elapsed time narrowed to a
  16-bit \<open>int\<close>. In the sketch as shipped, after the door closed at 200 ms with the
  analog input at 1023 (\<open>onDuration\<close> 2018), a call 40000 ms later, door still closed
  and on flag set, computes \<open>timeSinceClose = 40000 - 65536\<close>, does not take the expiry
  branch and issues no command.
\<close>

theorem late_tick_misses_expiry:
  "\<not> millis1 (at_time 40200 LOW 1023)
       - stateChangeTime (run as_shipped (boot as_shipped 0)
           [at_time 100 HIGH 0, at_time 200 LOW 1023]) < DEBOUNCE_TIME
   \<and> IS_CLOSED (state (run as_shipped (boot as_shipped 0)
           [at_time 100 HIGH 0, at_time 200 LOW 1023]))
   \<and> button (at_time 40200 LOW 1023) = LOW
   \<and> IS_ON (state (run as_shipped (boot as_shipped 0)
           [at_time 100 HIGH 0, at_time 200 LOW 1023]))
   \<and> sint (onDuration (run as_shipped (boot as_shipped 0)
           [at_time 100 HIGH 0, at_time 200 LOW 1023])) = 2018
   \<and> uint (millis2 (at_time 40200 LOW 1023)
           - stateChangeTime (run as_shipped (boot as_shipped 0)
               [at_time 100 HIGH 0, at_time 200 LOW 1023])) = 40000
   \<and> IS_ON (state (fst (loop as_shipped (at_time 40200 LOW 1023)
         (run as_shipped (boot as_shipped 0) [at_time 100 HIGH 0, at_time 200 LOW 1023]))))
   \<and> \<not> IS_BINGING (state (fst (loop as_shipped (at_time 40200 LOW 1023)
         (run as_shipped (boot as_shipped 0) [at_time 100 HIGH 0, at_time 200 LOW 1023]))))
   \<and> snd (loop as_shipped (at_time 40200 LOW 1023)
         (run as_shipped (boot as_shipped 0) [at_time 100 HIGH 0, at_time 200 LOW 1023])) = []"
  by (simp add: eval_defs)

section \<open>Elapsed time and wrap-around\<close>

lemma elapsed_of_nat:
  fixes t :: ulong
  assumes "d < 2 ^ 32"
  shows "uint (t + word_of_nat d - t) = int d"
proof -
  have "take_bit 32 d = d" using assms by (simp add: take_bit_nat_eq_self)
  then show ?thesis by (simp add: unsigned_of_nat)
qed

lemma sint_plus_bing:
  fixes w :: int16
  assumes "sint w \<le> 32417"
  shows "sint (w + BING_DURATION_MS) = sint w + 350"
proof -
  have lo: "- (2 ^ 15) \<le> sint w" using sint_ge[of w] by simp
  have "- (2 ^ 15) \<le> sint w + 350" using lo by simp
  moreover have "sint w + 350 < 2 ^ 15" using assms by simp
  ultimately have "signed_take_bit 15 (sint w + 350) = sint w + 350"
    by (rule signed_take_bit_int_eq_self)
  then show ?thesis by (simp add: sint_word_ariths)
qed

text \<open>
  Claim C8, as stated, fails for the time since the close: the 32-bit difference is
  narrowed to a 16-bit \<open>int\<close> before it is compared. Here \<open>setup()\<close> runs 296 ms
  before \<open>millis()\<close> wraps, the door closes 96 ms before the wrap with
  \<open>onDuration = 2018\<close>, and a call 32768 ms after the close, at the wrapped time 32672,
  finds \<open>timeSinceClose = -32768\<close>: the comparison \<open>timeSinceClose > onDuration\<close> is
  false although the elapsed time exceeds \<open>onDuration\<close>, and the timer does not expire.
\<close>

theorem elapsed_past_int_range_not_expired:
  "uint (millis2 (at_time 32672 LOW 1023)
     - stateChangeTime (run as_shipped (boot as_shipped 4294967000)
         [at_time 4294967100 HIGH 0, at_time 4294967200 LOW 1023])) = 32768
   \<and> sint (onDuration (run as_shipped (boot as_shipped 4294967000)
         [at_time 4294967100 HIGH 0, at_time 4294967200 LOW 1023])) = 2018
   \<and> sint (timeSinceClose (at_time 32672 LOW 1023)
         (run as_shipped (boot as_shipped 4294967000)
           [at_time 4294967100 HIGH 0, at_time 4294967200 LOW 1023])) = - 32768
   \<and> \<not> onDuration (run as_shipped (boot as_shipped 4294967000)
           [at_time 4294967100 HIGH 0, at_time 4294967200 LOW 1023])
         <s timeSinceClose (at_time 32672 LOW 1023)
           (run as_shipped (boot as_shipped 4294967000)
             [at_time 4294967100 HIGH 0, at_time 4294967200 LOW 1023])
   \<and> IS_ON (state (run as_shipped (boot as_shipped 4294967000)
         [at_time 4294967100 HIGH 0, at_time 4294967200 LOW 1023]))
   \<and> IS_ON (state (fst (loop as_shipped (at_time 32672 LOW 1023)
         (run as_shipped (boot as_shipped 4294967000)
           [at_time 4294967100 HIGH 0, at_time 4294967200 LOW 1023]))))
   \<and> snd (loop as_shipped (at_time 32672 LOW 1023)
         (run as_shipped (boot as_shipped 4294967000)
           [at_time 4294967100 HIGH 0, at_time 4294967200 LOW 1023])) = []"
  by (simp add: eval_defs)

text \<open>
  Claim C8, amended. Both elapsed times are 32-bit unsigned differences, so they are
  right across a wrap of \<open>millis()\<close>: when the first \<open>millis()\<close> value is \<open>d1\<close>
  milliseconds after \<open>stateChangeTime\<close> modulo \<open>2 ^ 32\<close>, the debounce test holds the
  call back exactly when \<open>d1 < 100\<close>, for every \<open>d1\<close> below \<open>2 ^ 32\<close>. The time since
  the close is then narrowed to a 16-bit \<open>int\<close>: when the second \<open>millis()\<close> value is
  \<open>d2\<close> milliseconds after \<open>stateChangeTime\<close> and \<open>d2 < 32768\<close>,
  \<open>timeSinceClose\<close> is \<open>d2\<close>, the expiry comparison holds exactly when \<open>d2\<close> exceeds
  \<open>onDuration\<close>, the bing comparison exactly when \<open>d2\<close> exceeds \<open>onDuration + 350\<close>
  (for \<open>onDuration\<close> up to 32417, where the \<open>int\<close> sum does not overflow), and a
  running machine with the door closed turns off exactly when \<open>d2\<close> exceeds
  \<open>onDuration\<close>.
\<close>

theorem elapsed_time_unsigned_then_narrowed:
  assumes "millis1 i = stateChangeTime v + word_of_nat d1"
      and "d1 < 2 ^ 32"
      and "millis2 i = stateChangeTime v + word_of_nat d2"
      and "d2 < 32768"
  shows "(millis1 i - stateChangeTime v < DEBOUNCE_TIME) = (d1 < 100)
       \<and> (d1 < 100 \<longrightarrow> loop b i v = (v, []))
       \<and> sint (timeSinceClose i v) = int d2
       \<and> (onDuration v <s timeSinceClose i v) = (sint (onDuration v) < int d2)
       \<and> (sint (onDuration v) \<le> 32417 \<longrightarrow>
            (onDuration v + BING_DURATION_MS <s timeSinceClose i v)
            = (sint (onDuration v) + 350 < int d2))
       \<and> (100 \<le> d1 \<and> IS_CLOSED (state v) \<and> button i = LOW \<and> IS_ON (state v) \<longrightarrow>
            IS_OFF (state (fst (loop b i v))) = (sint (onDuration v) < int d2))"
proof -
  have e1: "uint (millis1 i - stateChangeTime v) = int d1"
    using assms(1,2) by (simp only: elapsed_of_nat)
  have "d2 < 2 ^ 32" using assms(4) by simp
  then have e2: "uint (millis2 i - stateChangeTime v) = int d2"
    using assms(3) by (simp only: elapsed_of_nat)
  have gate: "(millis1 i - stateChangeTime v < DEBOUNCE_TIME) = (d1 < 100)"
    by (simp add: word_less_def e1)
  have frozen: "loop b i v = (v, [])" if "d1 < 100"
    using that gate by (simp add: loop_debounced)
  have tsc: "sint (timeSinceClose i v) = int d2"
    using e2 assms(4) by (simp add: timeSinceClose_small)
  have cmp: "(onDuration v <s timeSinceClose i v) = (sint (onDuration v) < int d2)"
    by (simp add: word_sless_alt tsc)
  have cmp2: "(onDuration v + BING_DURATION_MS <s timeSinceClose i v)
            = (sint (onDuration v) + 350 < int d2)" if "sint (onDuration v) \<le> 32417"
    using that by (simp add: word_sless_alt tsc sint_plus_bing)
  have exp: "IS_OFF (state (fst (loop b i v))) = (sint (onDuration v) < int d2)"
    if "100 \<le> d1" "IS_CLOSED (state v)" "button i = LOW" "IS_ON (state v)"
  proof -
    have "\<not> millis1 i - stateChangeTime v < DEBOUNCE_TIME" using that(1) gate by simp
    then show ?thesis
      using that cmp by (simp add: loop_still_closed flag_bits)
  qed
  from gate frozen tsc cmp cmp2 exp show ?thesis by blast
qed

theorem elapsed_time_unsigned_then_narrowed_witness:
  "millis1 \<lparr>millis1 = 54, millis2 = 2904, button = LOW, analog = 1023\<rparr>
     = stateChangeTime (run as_shipped (boot as_shipped 4294967000)
         [at_time 4294967100 HIGH 0, at_time 4294967200 LOW 1023]) + word_of_nat 150
   \<and> (150 :: nat) < 2 ^ 32
   \<and> millis2 \<lparr>millis1 = 54, millis2 = 2904, button = LOW, analog = 1023\<rparr>
     = stateChangeTime (run as_shipped (boot as_shipped 4294967000)
         [at_time 4294967100 HIGH 0, at_time 4294967200 LOW 1023]) + word_of_nat 3000
   \<and> (3000 :: nat) < 32768
   \<and> sint (onDuration (run as_shipped (boot as_shipped 4294967000)
         [at_time 4294967100 HIGH 0, at_time 4294967200 LOW 1023])) \<le> 32417
   \<and> (100 :: nat) \<le> 150
   \<and> IS_CLOSED (state (run as_shipped (boot as_shipped 4294967000)
         [at_time 4294967100 HIGH 0, at_time 4294967200 LOW 1023]))
   \<and> button \<lparr>millis1 = 54, millis2 = 2904, button = LOW, analog = 1023\<rparr> = LOW
   \<and> IS_ON (state (run as_shipped (boot as_shipped 4294967000)
         [at_time 4294967100 HIGH 0, at_time 4294967200 LOW 1023]))
   \<and> \<not> millis1 \<lparr>millis1 = 54, millis2 = 2904, button = LOW, analog = 1023\<rparr>
         - stateChangeTime (run as_shipped (boot as_shipped 4294967000)
             [at_time 4294967100 HIGH 0, at_time 4294967200 LOW 1023]) < DEBOUNCE_TIME
   \<and> sint (timeSinceClose \<lparr>millis1 = 54, millis2 = 2904, button = LOW, analog = 1023\<rparr>
        (run as_shipped (boot as_shipped 4294967000)
          [at_time 4294967100 HIGH 0, at_time 4294967200 LOW 1023])) = 3000
   \<and> IS_OFF (state (fst (loop as_shipped
        \<lparr>millis1 = 54, millis2 = 2904, button = LOW, analog = 1023\<rparr>
        (run as_shipped (boot as_shipped 4294967000)
          [at_time 4294967100 HIGH 0, at_time 4294967200 LOW 1023]))))"
proof -
  let ?v = "run as_shipped (boot as_shipped 4294967000)
              [at_time 4294967100 HIGH 0, at_time 4294967200 LOW 1023]"
  let ?i = "\<lparr>millis1 = 54, millis2 = 2904, button = LOW, analog = 1023\<rparr>"
  have h1: "millis1 ?i = stateChangeTime ?v + word_of_nat 150" by (simp add: eval_defs)
  have h2: "(150 :: nat) < 2 ^ 32" by simp
  have h3: "millis2 ?i = stateChangeTime ?v + word_of_nat 3000" by (simp add: eval_defs)
  have h4: "(3000 :: nat) < 32768" by simp
  have h5: "sint (onDuration ?v) \<le> 32417" by (simp add: eval_defs)
  have h6: "IS_CLOSED (state ?v)" "IS_ON (state ?v)" "button ?i = LOW"
    by (simp_all add: eval_defs)
  show ?thesis
    using h1 h2 h3 h4 h5 h6
      elapsed_time_unsigned_then_narrowed[OF h1 h2 h3 h4, of as_shipped]
    by (simp add: eval_defs)
qed

section \<open>The duration at the ends of the scale\<close>

lemma onDuration_kept_without_timer_pin:
  "\<not> timer_pin_defined b \<Longrightarrow> onDuration (fst (loop b i v)) = onDuration v"
  by (simp add: loop_def Let_def)

lemma onDuration_run_without_timer_pin:
  "\<not> timer_pin_defined b \<Longrightarrow> onDuration (run b v is) = onDuration v"
  by (induction "is" arbitrary: v) (simp_all add: onDuration_kept_without_timer_pin)

lemma onDuration_boot: "onDuration (boot b t0) = ON_DURATION_MIN_MS"
  by (simp add: boot_defs)

text \<open>
  Claim C1, as stated, fails in the sketch as shipped. \<open>reading\<close> is
  \<open>1024 - analogRead\<close>; at 1023 (analog value 1) the duration stored is 20414 ms, which
  is 414 ms above the minimum plus the 18 s range: each step of the reading adds 18 ms, so
  the full scale adds 18414 ms. Taking the analog value itself as the reading does not help:
  the analog value 1023 gives 2018 ms and the analog value 0 gives 20432 ms, not 2000 ms.
\<close>

theorem full_scale_duration_off_by_414:
  "reading 1 = 1023
   \<and> sint (onDuration (fst (loop as_shipped (at_time 200 LOW 1)
        (run as_shipped (boot as_shipped 0) [at_time 100 HIGH 0])))) = 20414
   \<and> \<not> \<bar>20414 - (2000 + 18000)\<bar> \<le> (1 :: int)
   \<and> sint (onDuration (fst (loop as_shipped (at_time 200 LOW 1023)
        (run as_shipped (boot as_shipped 0) [at_time 100 HIGH 0])))) = 2018
   \<and> \<not> \<bar>2018 - (2000 + 18000)\<bar> \<le> (1 :: int)
   \<and> sint (onDuration (fst (loop as_shipped (at_time 200 LOW 0)
        (run as_shipped (boot as_shipped 0) [at_time 100 HIGH 0])))) = 20432
   \<and> (20432 :: int) \<noteq> 2000"
  by (simp add: eval_defs)

text \<open>
  Claim C1, amended. For every call of \<open>loop()\<close> that recognizes the door closing, in
  any state reached from \<open>setup()\<close>: without \<open>TIMER_PIN\<close>, \<open>onDuration\<close> is
  \<open>ON_DURATION_MIN_MS\<close> (2000 ms) exactly; with \<open>TIMER_PIN\<close> and the reading at
  1023, \<open>onDuration\<close> is the minimum plus the 18 s range plus 414 ms (20414 ms).
\<close>

theorem close_duration_endpoints:
  assumes "\<not> millis1 i - stateChangeTime (run b (boot b t0) is) < DEBOUNCE_TIME"
      and "IS_OPEN (state (run b (boot b t0) is))"
      and "button i = LOW"
  shows "(\<not> timer_pin_defined b \<longrightarrow>
            onDuration (fst (loop b i (run b (boot b t0) is))) = ON_DURATION_MIN_MS)
       \<and> (timer_pin_defined b \<and> reading (analog i) = 1023 \<longrightarrow>
            sint (onDuration (fst (loop b i (run b (boot b t0) is)))) = 2000 + 18000 + 414)"
proof -
  have "onDuration (fst (loop b i (run b (boot b t0) is))) = ON_DURATION_MIN_MS"
    if "\<not> timer_pin_defined b"
    using that
    by (simp add: onDuration_kept_without_timer_pin onDuration_run_without_timer_pin
        onDuration_boot)
  moreover have "sint (onDuration (fst (loop b i (run b (boot b t0) is)))) = 2000 + 18000 + 414"
    if "timer_pin_defined b" "reading (analog i) = 1023"
    using that assms by (simp add: loop_door_closed duration_def)
  ultimately show ?thesis by blast
qed

theorem close_duration_endpoints_witness:
  "\<not> millis1 (at_time 200 LOW 1)
       - stateChangeTime (run no_timer_pin
           (boot no_timer_pin 0)
           [at_time 100 HIGH 0]) < DEBOUNCE_TIME
   \<and> IS_OPEN (state (run no_timer_pin
           (boot no_timer_pin 0)
           [at_time 100 HIGH 0]))
   \<and> button (at_time 200 LOW 1) = LOW
   \<and> \<not> timer_pin_defined no_timer_pin
   \<and> onDuration (fst (loop no_timer_pin
         (at_time 200 LOW 1)
         (run no_timer_pin
           (boot no_timer_pin 0)
           [at_time 100 HIGH 0]))) = ON_DURATION_MIN_MS
   \<and> \<not> millis1 (at_time 200 LOW 1)
       - stateChangeTime (run as_shipped (boot as_shipped 0) [at_time 100 HIGH 0])
       < DEBOUNCE_TIME
   \<and> IS_OPEN (state (run as_shipped (boot as_shipped 0) [at_time 100 HIGH 0]))
   \<and> timer_pin_defined as_shipped
   \<and> reading (analog (at_time 200 LOW 1)) = 1023
   \<and> sint (onDuration (fst (loop as_shipped (at_time 200 LOW 1)
         (run as_shipped (boot as_shipped 0) [at_time 100 HIGH 0])))) = 20414"
proof -
  let ?b = "no_timer_pin"
  let ?i = "at_time 200 LOW 1"
  have a1: "\<not> millis1 ?i - stateChangeTime (run ?b (boot ?b 0) [at_time 100 HIGH 0])
              < DEBOUNCE_TIME"
    by (simp add: eval_defs)
  have a2: "IS_OPEN (state (run ?b (boot ?b 0) [at_time 100 HIGH 0]))"
    by (simp add: eval_defs)
  have a3: "button ?i = LOW" by (simp add: at_time_def)
  have a4: "\<not> timer_pin_defined ?b" by (simp add: no_timer_pin_def)
  have b1: "\<not> millis1 ?i
              - stateChangeTime (run as_shipped (boot as_shipped 0) [at_time 100 HIGH 0])
              < DEBOUNCE_TIME"
    by (simp add: eval_defs)
  have b2: "IS_OPEN (state (run as_shipped (boot as_shipped 0) [at_time 100 HIGH 0]))"
    by (simp add: eval_defs)
  have b4: "timer_pin_defined as_shipped" by (simp add: as_shipped_def)
  have b5: "reading (analog ?i) = 1023" by (simp add: at_time_def reading_def)
  from close_duration_endpoints[OF a1 a2 a3] a4
  have ca: "onDuration (fst (loop ?b ?i (run ?b (boot ?b 0) [at_time 100 HIGH 0])))
            = ON_DURATION_MIN_MS" by blast
  from close_duration_endpoints[OF b1 b2 a3] b4 b5
  have cb: "sint (onDuration (fst (loop as_shipped ?i
              (run as_shipped (boot as_shipped 0) [at_time 100 HIGH 0]))))
            = 2000 + 18000 + 414" by blast
  then have cb': "sint (onDuration (fst (loop as_shipped ?i
              (run as_shipped (boot as_shipped 0) [at_time 100 HIGH 0])))) = 20414" by simp
  from a1 a2 a3 a4 ca b1 b2 b4 b5 cb' show ?thesis by blast
qed

section \<open>The cooking scenario\<close>

text \<open>
  Claim C5 evaluated on the sketch as shipped (\<open>TIMER_PIN\<close> defined). After
  \<open>setup()\<close> at 0 and an open door at 100 ms, the door closes at 200 ms. With the analog
  input at 1023 (the pulled-up pin, for which the comment in the source promises the
  minimum) the close issues the cooking tone for 2018 ms, not 2000 ms; the call 2001 ms
  after the close issues nothing and leaves the on flag set; the call 2352 ms after the
  close is the one that issues the bing and sets the bing flag. With the analog input at 0
  the close issues the cooking tone for 20432 ms and the call 2001 ms later issues nothing.
\<close>

theorem scenario_as_shipped_cooks_2018:
  "snd (loop as_shipped (at_time 200 LOW 1023)
         (run as_shipped (boot as_shipped 0) [at_time 100 HIGH 0]))
     = [DigitalWrite LIGHT_PIN HIGH, Tone SPEAKER_PIN TONE_FREQ_COOKING 2018]
   \<and> snd (loop as_shipped (at_time (200 + 2001) LOW 1023)
         (run as_shipped (boot as_shipped 0) [at_time 100 HIGH 0, at_time 200 LOW 1023])) = []
   \<and> IS_ON (state (run as_shipped (boot as_shipped 0)
         [at_time 100 HIGH 0, at_time 200 LOW 1023, at_time (200 + 2001) LOW 1023]))
   \<and> \<not> IS_BINGING (state (run as_shipped (boot as_shipped 0)
         [at_time 100 HIGH 0, at_time 200 LOW 1023, at_time (200 + 2001) LOW 1023]))
   \<and> snd (loop as_shipped (at_time (200 + 2352) LOW 1023)
         (run as_shipped (boot as_shipped 0)
           [at_time 100 HIGH 0, at_time 200 LOW 1023, at_time (200 + 2001) LOW 1023]))
     = [DigitalWrite LIGHT_PIN LOW, Tone SPEAKER_PIN TONE_FREQ_BING BING_DURATION_MS]
   \<and> IS_BINGING (state (run as_shipped (boot as_shipped 0)
         [at_time 100 HIGH 0, at_time 200 LOW 1023, at_time (200 + 2001) LOW 1023,
          at_time (200 + 2352) LOW 1023]))
   \<and> snd (loop as_shipped (at_time 200 LOW 0)
         (run as_shipped (boot as_shipped 0) [at_time 100 HIGH 0]))
     = [DigitalWrite LIGHT_PIN HIGH, Tone SPEAKER_PIN TONE_FREQ_COOKING 20432]
   \<and> snd (loop as_shipped (at_time (200 + 2001) LOW 0)
         (run as_shipped (boot as_shipped 0) [at_time 100 HIGH 0, at_time 200 LOW 0])) = []"
  by (simp add: eval_defs)

text \<open>Without \<open>TIMER_PIN\<close> the same calls go as the scenario says: cooking tone for
  2000 ms, bing 2001 ms after the close, bing flag cleared 2352 ms after the close.\<close>

lemma scenario_without_timer_pin:
  "snd (loop no_timer_pin (at_time 200 LOW 0)
         (run no_timer_pin
            (boot no_timer_pin 0)
            [at_time 100 HIGH 0]))
     = [DigitalWrite LIGHT_PIN HIGH, Tone SPEAKER_PIN TONE_FREQ_COOKING 2000]
   \<and> snd (loop no_timer_pin
         (at_time (200 + 2001) LOW 0)
         (run no_timer_pin
            (boot no_timer_pin 0)
            [at_time 100 HIGH 0, at_time 200 LOW 0]))
     = [DigitalWrite LIGHT_PIN LOW, Tone SPEAKER_PIN TONE_FREQ_BING BING_DURATION_MS]
   \<and> IS_OFF (state (run no_timer_pin
            (boot no_timer_pin 0)
            [at_time 100 HIGH 0, at_time 200 LOW 0, at_time (200 + 2001) LOW 0]))
   \<and> IS_BINGING (state (run no_timer_pin
            (boot no_timer_pin 0)
            [at_time 100 HIGH 0, at_time 200 LOW 0, at_time (200 + 2001) LOW 0]))
   \<and> snd (loop no_timer_pin
         (at_time (200 + 2352) LOW 0)
         (run no_timer_pin
            (boot no_timer_pin 0)
            [at_time 100 HIGH 0, at_time 200 LOW 0, at_time (200 + 2001) LOW 0])) = []
   \<and> \<not> IS_BINGING (state (run no_timer_pin
            (boot no_timer_pin 0)
            [at_time 100 HIGH 0, at_time 200 LOW 0, at_time (200 + 2001) LOW 0,
             at_time (200 + 2352) LOW 0]))"
  by (simp add: eval_defs)


section \<open>Repeating a call\<close>

lemma transition_of_iff:
  "(transition_of i v = Some DoorOpened) =
     (\<not> millis1 i - stateChangeTime v < DEBOUNCE_TIME \<and> IS_CLOSED (state v) \<and> button i = HIGH)"
  "(transition_of i v = Some TimerExpired) =
     (\<not> millis1 i - stateChangeTime v < DEBOUNCE_TIME \<and> IS_CLOSED (state v) \<and> button i = LOW
      \<and> IS_ON (state v) \<and> onDuration v <s timeSinceClose i v)"
  "(transition_of i v = Some BingFinished) =
     (\<not> millis1 i - stateChangeTime v < DEBOUNCE_TIME \<and> IS_CLOSED (state v) \<and> button i = LOW
      \<and> IS_OFF (state v) \<and> IS_BINGING (state v)
      \<and> onDuration v + BING_DURATION_MS <s timeSinceClose i v)"
  "(transition_of i v = Some DoorClosed) =
     (\<not> millis1 i - stateChangeTime v < DEBOUNCE_TIME \<and> IS_OPEN (state v) \<and> button i = LOW)"
  by (cases "button i"; auto simp add: transition_of_def Let_def flag_bits)+

lemma repeat_after_door_opened:
  assumes "transition_of i v = Some DoorOpened"
  shows "loop b i (fst (loop b i v))
         = ((fst (loop b i v))\<lparr>state := SET_WAS_OPEN (state (fst (loop b i v)))\<rparr>, [])"
proof -
  from assms have h: "\<not> millis1 i - stateChangeTime v < DEBOUNCE_TIME" "IS_CLOSED (state v)"
    "button i = HIGH" by (simp_all add: transition_of_iff)
  let ?st = "SET_FINISHED_BINGING (SET_OFF (SET_OPEN (SET_OPEN (REMEMBER_IF_CLOSED (state v)))))"
  have l: "fst (loop b i v) = v\<lparr>state := ?st\<rparr>" by (simp add: loop_door_opened[OF h])
  have "SET_OPEN (REMEMBER_IF_CLOSED ?st) = SET_WAS_OPEN ?st"
    by (rule bit_word_eqI) (auto simp add: flag_bits)
  moreover have "loop b i (v\<lparr>state := ?st\<rparr>)
      = (v\<lparr>state := ?st\<rparr>\<lparr>state := SET_OPEN (REMEMBER_IF_CLOSED ?st)\<rparr>, [])"
    using h by (simp add: loop_still_open flag_bits)
  ultimately show ?thesis by (simp add: l)
qed

lemma repeat_after_timer_expired:
  assumes "transition_of i v = Some TimerExpired"
  shows "loop b i (fst (loop b i v))
         = (if onDuration v + BING_DURATION_MS <s timeSinceClose i v
            then (fst (loop b i v))\<lparr>state := SET_FINISHED_BINGING (state (fst (loop b i v)))\<rparr>
            else fst (loop b i v), [])"
proof -
  from assms have h: "\<not> millis1 i - stateChangeTime v < DEBOUNCE_TIME" "IS_CLOSED (state v)"
    "button i = LOW" "IS_ON (state v)" "onDuration v <s timeSinceClose i v"
    by (simp_all add: transition_of_iff)
  let ?st = "SET_BINGING (SET_OFF (SET_CLOSED (REMEMBER_IF_CLOSED (state v))))"
  have l: "fst (loop b i v) = v\<lparr>state := ?st\<rparr>"
    using h by (simp add: loop_still_closed)
  have same: "SET_CLOSED (REMEMBER_IF_CLOSED ?st) = ?st"
    by (rule bit_word_eqI) (use h(2) in \<open>auto simp add: flag_bits\<close>)
  have "loop b i (v\<lparr>state := ?st\<rparr>)
      = (if onDuration v + BING_DURATION_MS <s timeSinceClose i v
         then v\<lparr>state := SET_FINISHED_BINGING ?st\<rparr> else v\<lparr>state := ?st\<rparr>, [])"
    using h(1,3) by (simp add: loop_still_closed same timeSinceClose_def flag_bits)
  then show ?thesis by (simp add: l)
qed

lemma repeat_after_bing_finished:
  assumes "transition_of i v = Some BingFinished"
  shows "loop b i (fst (loop b i v)) = (fst (loop b i v), [])"
proof -
  from assms have h: "\<not> millis1 i - stateChangeTime v < DEBOUNCE_TIME" "IS_CLOSED (state v)"
    "button i = LOW" "IS_OFF (state v)" "IS_BINGING (state v)"
    "onDuration v + BING_DURATION_MS <s timeSinceClose i v"
    by (simp_all add: transition_of_iff)
  let ?st = "SET_FINISHED_BINGING (SET_CLOSED (REMEMBER_IF_CLOSED (state v)))"
  have l: "fst (loop b i v) = v\<lparr>state := ?st\<rparr>"
    using h by (simp add: loop_still_closed flag_bits)
  have same: "SET_CLOSED (REMEMBER_IF_CLOSED ?st) = ?st"
    by (rule bit_word_eqI) (use h(2) in \<open>auto simp add: flag_bits\<close>)
  have "loop b i (v\<lparr>state := ?st\<rparr>) = (v\<lparr>state := ?st\<rparr>, [])"
    using h(1,3,4) by (simp add: loop_still_closed same timeSinceClose_def flag_bits)
  then show ?thesis by (simp add: l)
qed

lemma repeat_after_door_closed:
  assumes "transition_of i v = Some DoorClosed" "millis2 i = millis1 i"
  shows "loop b i (fst (loop b i v)) = (fst (loop b i v), [])"
proof -
  from assms have h: "\<not> millis1 i - stateChangeTime v < DEBOUNCE_TIME" "IS_OPEN (state v)"
    "button i = LOW" by (simp_all add: transition_of_iff)
  have "stateChangeTime (fst (loop b i v)) = millis1 i"
    using assms(2) by (simp add: loop_door_closed[OF h])
  then have "millis1 i - stateChangeTime (fst (loop b i v)) < DEBOUNCE_TIME" by simp
  then show ?thesis by (rule loop_debounced)
qed

text \<open>
  Claim C7, as stated, fails: a repeated call can change the state. In the sketch as
  shipped the door closes at 200 ms with \<open>onDuration = 2018\<close>; the call at 3000 ms takes
  the timer-expiry branch and sets the bing flag; the same call again, 2800 ms after the
  close and so past \<open>onDuration + 350\<close>, takes the bing-finished branch and clears it.
\<close>

theorem repeat_after_late_expiry_clears_bing:
  "transition_of (at_time 3000 LOW 1023)
      (run as_shipped (boot as_shipped 0) [at_time 100 HIGH 0, at_time 200 LOW 1023])
     = Some TimerExpired
   \<and> fst (loop as_shipped (at_time 3000 LOW 1023)
        (fst (loop as_shipped (at_time 3000 LOW 1023)
          (run as_shipped (boot as_shipped 0) [at_time 100 HIGH 0, at_time 200 LOW 1023]))))
     \<noteq> fst (loop as_shipped (at_time 3000 LOW 1023)
          (run as_shipped (boot as_shipped 0) [at_time 100 HIGH 0, at_time 200 LOW 1023]))
   \<and> IS_BINGING (state (fst (loop as_shipped (at_time 3000 LOW 1023)
          (run as_shipped (boot as_shipped 0) [at_time 100 HIGH 0, at_time 200 LOW 1023]))))
   \<and> \<not> IS_BINGING (state (fst (loop as_shipped (at_time 3000 LOW 1023)
        (fst (loop as_shipped (at_time 3000 LOW 1023)
          (run as_shipped (boot as_shipped 0) [at_time 100 HIGH 0, at_time 200 LOW 1023]))))))"
  by (simp add: eval_defs)


lemma repeat_after_timer_expired_in_range:
  assumes "transition_of i v = Some TimerExpired"
      and "uint (millis2 i - stateChangeTime v) < 32768"
      and "sint (onDuration v) \<le> 32417"
  shows "loop b i (fst (loop b i v))
         = (if sint (onDuration v) + 350 < uint (millis2 i - stateChangeTime v)
            then (fst (loop b i v))\<lparr>state := SET_FINISHED_BINGING (state (fst (loop b i v)))\<rparr>
            else fst (loop b i v), [])"
proof -
  have "(onDuration v + BING_DURATION_MS <s timeSinceClose i v)
        = (sint (onDuration v) + 350 < uint (millis2 i - stateChangeTime v))"
    using assms(2,3) by (simp add: word_sless_alt timeSinceClose_small sint_plus_bing)
  then show ?thesis by (simp add: repeat_after_timer_expired[OF assms(1)])
qed

text \<open>Past the range of the 16-bit \<open>int\<close> the narrowed time decides: after the close at
  200 ms with \<open>onDuration = 2018\<close>, the call at 67936 ms (67736 ms after the close,
  narrowed to 2200) takes the timer-expiry branch, and the same call again leaves the bing
  flag set, since 2200 does not exceed 2368.\<close>

lemma repeat_after_wrapped_expiry_keeps_bing:
  "transition_of (at_time 67936 LOW 1023)
      (run as_shipped (boot as_shipped 0) [at_time 100 HIGH 0, at_time 200 LOW 1023])
     = Some TimerExpired
   \<and> uint (millis2 (at_time 67936 LOW 1023)
        - stateChangeTime (run as_shipped (boot as_shipped 0)
            [at_time 100 HIGH 0, at_time 200 LOW 1023])) = 67736
   \<and> sint (timeSinceClose (at_time 67936 LOW 1023)
        (run as_shipped (boot as_shipped 0) [at_time 100 HIGH 0, at_time 200 LOW 1023]))
      = 2200
   \<and> loop as_shipped (at_time 67936 LOW 1023)
        (fst (loop as_shipped (at_time 67936 LOW 1023)
          (run as_shipped (boot as_shipped 0) [at_time 100 HIGH 0, at_time 200 LOW 1023])))
     = (fst (loop as_shipped (at_time 67936 LOW 1023)
          (run as_shipped (boot as_shipped 0) [at_time 100 HIGH 0, at_time 200 LOW 1023])), [])
   \<and> IS_BINGING (state (fst (loop as_shipped (at_time 67936 LOW 1023)
          (run as_shipped (boot as_shipped 0) [at_time 100 HIGH 0, at_time 200 LOW 1023]))))"
  by (simp add: eval_defs)

text \<open>
  Claim C7, amended. After a call of \<open>loop()\<close> that took one of the four transition
  branches, the same call again (same switch and analog values, both \<open>millis()\<close> values
  equal to the same time) issues no command at all. The variables are unchanged after a
  door-closing or bing-finished transition. After a door-opening transition the repeated
  call clears the was-closed flag and changes nothing else. After a timer-expiry
  transition the repeated call clears the bing flag when \<open>timeSinceClose\<close>, the elapsed
  time narrowed to a 16-bit \<open>int\<close>, exceeds \<open>onDuration + 350\<close>, and changes nothing
  otherwise; for an elapsed time below 32768 ms (and \<open>onDuration\<close> up to 32417, where
  the \<open>int\<close> sum does not overflow) that is exactly when the elapsed time since the
  close exceeds \<open>onDuration + 350\<close>.
\<close>

theorem repeated_tick_issues_nothing:
  assumes "transition_of i v = Some t"
      and "millis2 i = millis1 i"
  shows "snd (loop b i (fst (loop b i v))) = []
       \<and> (t = DoorClosed \<or> t = BingFinished \<longrightarrow>
            fst (loop b i (fst (loop b i v))) = fst (loop b i v))
       \<and> (t = DoorOpened \<longrightarrow>
            fst (loop b i (fst (loop b i v)))
            = (fst (loop b i v))\<lparr>state := SET_WAS_OPEN (state (fst (loop b i v)))\<rparr>)
       \<and> (t = TimerExpired \<longrightarrow>
            fst (loop b i (fst (loop b i v)))
            = (if onDuration v + BING_DURATION_MS <s timeSinceClose i v
               then (fst (loop b i v))
                      \<lparr>state := SET_FINISHED_BINGING (state (fst (loop b i v)))\<rparr>
               else fst (loop b i v)))
       \<and> (t = TimerExpired \<and> uint (millis2 i - stateChangeTime v) < 32768
            \<and> sint (onDuration v) \<le> 32417 \<longrightarrow>
            fst (loop b i (fst (loop b i v)))
            = (if sint (onDuration v) + 350 < uint (millis2 i - stateChangeTime v)
               then (fst (loop b i v))
                      \<lparr>state := SET_FINISHED_BINGING (state (fst (loop b i v)))\<rparr>
               else fst (loop b i v)))"
proof (cases t)
  case DoorOpened
  with assms show ?thesis by (simp add: repeat_after_door_opened)
next
  case TimerExpired
  with assms have e: "transition_of i v = Some TimerExpired" by simp
  have "fst (loop b i (fst (loop b i v)))
        = (if sint (onDuration v) + 350 < uint (millis2 i - stateChangeTime v)
           then (fst (loop b i v))
                  \<lparr>state := SET_FINISHED_BINGING (state (fst (loop b i v)))\<rparr>
           else fst (loop b i v))"
    if "uint (millis2 i - stateChangeTime v) < 32768" "sint (onDuration v) \<le> 32417"
    by (simp add: repeat_after_timer_expired_in_range[OF e that])
  with TimerExpired e show ?thesis by (simp add: repeat_after_timer_expired)
next
  case BingFinished
  with assms show ?thesis by (simp add: repeat_after_bing_finished)
next
  case DoorClosed
  with assms show ?thesis by (simp add: repeat_after_door_closed)
qed

theorem repeated_tick_issues_nothing_witness:
  "transition_of (at_time 100 HIGH 0) (boot as_shipped 0) = Some DoorOpened
   \<and> millis2 (at_time 100 HIGH 0) = millis1 (at_time 100 HIGH 0)
   \<and> loop as_shipped (at_time 100 HIGH 0)
        (fst (loop as_shipped (at_time 100 HIGH 0) (boot as_shipped 0)))
     = (\<lparr>stateChangeTime = 0, state = 0, onDuration = ON_DURATION_MIN_MS\<rparr>, [])
   \<and> transition_of (at_time 200 LOW 1023)
        (run as_shipped (boot as_shipped 0) [at_time 100 HIGH 0]) = Some DoorClosed
   \<and> millis2 (at_time 200 LOW 1023) = millis1 (at_time 200 LOW 1023)
   \<and> loop as_shipped (at_time 200 LOW 1023)
        (fst (loop as_shipped (at_time 200 LOW 1023)
          (run as_shipped (boot as_shipped 0) [at_time 100 HIGH 0])))
     = (\<lparr>stateChangeTime = 200, state = 3, onDuration = 2018\<rparr>, [])
   \<and> transition_of (at_time 3000 LOW 1023)
        (run as_shipped (boot as_shipped 0) [at_time 100 HIGH 0, at_time 200 LOW 1023])
       = Some TimerExpired
   \<and> millis2 (at_time 3000 LOW 1023) = millis1 (at_time 3000 LOW 1023)
   \<and> uint (millis2 (at_time 3000 LOW 1023)
        - stateChangeTime (run as_shipped (boot as_shipped 0)
            [at_time 100 HIGH 0, at_time 200 LOW 1023])) < 32768
   \<and> sint (onDuration (run as_shipped (boot as_shipped 0)
        [at_time 100 HIGH 0, at_time 200 LOW 1023])) \<le> 32417
   \<and> sint (onDuration (run as_shipped (boot as_shipped 0)
        [at_time 100 HIGH 0, at_time 200 LOW 1023])) + 350
      < uint (millis2 (at_time 3000 LOW 1023)
          - stateChangeTime (run as_shipped (boot as_shipped 0)
              [at_time 100 HIGH 0, at_time 200 LOW 1023]))
   \<and> loop as_shipped (at_time 3000 LOW 1023)
        (fst (loop as_shipped (at_time 3000 LOW 1023)
          (run as_shipped (boot as_shipped 0) [at_time 100 HIGH 0, at_time 200 LOW 1023])))
     = (\<lparr>stateChangeTime = 200, state = 5, onDuration = 2018\<rparr>, [])
   \<and> transition_of (at_time 3000 LOW 1023)
        (run as_shipped (boot as_shipped 0)
          [at_time 100 HIGH 0, at_time 200 LOW 1023, at_time 2300 LOW 1023])
       = Some BingFinished
   \<and> loop as_shipped (at_time 3000 LOW 1023)
        (fst (loop as_shipped (at_time 3000 LOW 1023)
          (run as_shipped (boot as_shipped 0)
            [at_time 100 HIGH 0, at_time 200 LOW 1023, at_time 2300 LOW 1023])))
     = (\<lparr>stateChangeTime = 200, state = 5, onDuration = 2018\<rparr>, [])"
proof -
  let ?i1 = "at_time 100 HIGH 0" and ?v1 = "boot as_shipped 0"
  let ?i2 = "at_time 200 LOW 1023"
  let ?v2 = "run as_shipped (boot as_shipped 0) [at_time 100 HIGH 0]"
  let ?i3 = "at_time 3000 LOW 1023"
  let ?v3 = "run as_shipped (boot as_shipped 0) [at_time 100 HIGH 0, at_time 200 LOW 1023]"
  let ?v4 = "run as_shipped (boot as_shipped 0)
               [at_time 100 HIGH 0, at_time 200 LOW 1023, at_time 2300 LOW 1023]"
  have t1: "transition_of ?i1 ?v1 = Some DoorOpened" by (simp add: eval_defs)
  have t2: "transition_of ?i2 ?v2 = Some DoorClosed" by (simp add: eval_defs)
  have t3: "transition_of ?i3 ?v3 = Some TimerExpired" by (simp add: eval_defs)
  have t4: "transition_of ?i3 ?v4 = Some BingFinished" by (simp add: eval_defs)
  have m1: "millis2 ?i1 = millis1 ?i1" by (simp add: at_time_def)
  have m2: "millis2 ?i2 = millis1 ?i2" by (simp add: at_time_def)
  have m3: "millis2 ?i3 = millis1 ?i3" by (simp add: at_time_def)
  have r3: "uint (millis2 ?i3 - stateChangeTime ?v3) < 32768"
    "sint (onDuration ?v3) \<le> 32417"
    "sint (onDuration ?v3) + 350 < uint (millis2 ?i3 - stateChangeTime ?v3)"
    by (simp_all add: eval_defs)
  show ?thesis
    using t1 t2 t3 t4 m1 m2 m3 r3
      repeated_tick_issues_nothing[OF t1 m1, of as_shipped]
      repeated_tick_issues_nothing[OF t2 m2, of as_shipped]
      repeated_tick_issues_nothing[OF t3 m3, of as_shipped]
      repeated_tick_issues_nothing[OF t4 m3, of as_shipped]
    by (simp add: eval_defs)
qed

end
